theory Spec2Isabelle
  imports Main "HOL-Library.Word"
begin

section \<open>The Pkarr service: data model\<close>

text \<open>
  The development embeds \<^verbatim>\<open>impl/pkg/service/pkarr.go\<close> (the service: publish,
  resolve, republish) and the generated SQL queries of the Postgres store. The service
  talks to three collaborators whose code is not part of the service: the store (the Go
  interface \<^verbatim>\<open>storage.Storage\<close>), the cache (bigcache) and the DHT. The store is a
  parameter (a record of its three methods over a state of any type), as the interface
  is in Go. The cache is a finite map from ids to bytes whose \<^verbatim>\<open>Set\<close> fails when the
  environment says so; the DHT answers as the environment says and every call to it is
  recorded in a trace. The answers of the environment are functions of the arguments of
  the call. A DHT lookup gives a result or an error, never neither. Library functions
  (validation aside) are fields of a record \<open>lib\<close> that every function of the service
  takes.

  Time is not modelled: the cache's TTL and eviction do not occur between two
  operations of a run.
\<close>

type_synonym byte = "8 word"
type_synonym bytes = "byte list"
type_synonym int64 = "64 word"

text \<open>
  A Go error value: \<open>ValidationErrors\<close> lists the fields the validator rejects, \<open>Wrap\<close>
  is an error with a message put in front of it.
\<close>

datatype error = Error string | ValidationErrors "string list" | Wrap string error

text \<open>A Go call either returns or panics (a failed slice-to-array conversion).\<close>

datatype 'a outcome = Returns 'a | Panics

text \<open>
  \<^verbatim>\<open>PublishPkarrRequest\<close>. \<open>req_V\<close> is a Go slice: \<open>None\<close> is the nil slice.
  \<open>req_K\<close> is \<^verbatim>\<open>[32]byte\<close> and \<open>req_Sig\<close> is \<^verbatim>\<open>[64]byte\<close>; \<open>req_Seq\<close> is \<^verbatim>\<open>int64\<close>.
\<close>

record PublishPkarrRequest =
  req_V :: "bytes option"
  req_K :: bytes
  req_Sig :: bytes
  req_Seq :: int64

text \<open>\<^verbatim>\<open>pkarr.Record\<close>, the stored form: the byte fields as base64 text.\<close>

record Record =
  rec_V :: string
  rec_K :: string
  rec_Sig :: string
  rec_Seq :: int64

text \<open>\<^verbatim>\<open>GetPkarrResponse\<close>.\<close>

record GetPkarrResponse =
  resp_V :: "bytes option"
  resp_Seq :: int64
  resp_Sig :: bytes

text \<open>\<^verbatim>\<open>bep44.Put\<close>, the fields the service sets.\<close>

record bep44_Put =
  put_V :: "bytes option"
  put_K :: bytes
  put_Sig :: bytes
  put_Seq :: int64

text \<open>The result of \<^verbatim>\<open>dht.GetFull\<close>, the fields the service reads.\<close>

record FullGetResult =
  got_V :: bytes
  got_Seq :: int64
  got_Sig :: bytes

text \<open>
  The library functions the service calls: bencode, the BEP44 signature check (ed25519),
  \<^verbatim>\<open>base64.RawURLEncoding\<close> and JSON.
\<close>

record lib =
  bencode_Marshal :: "bytes \<Rightarrow> error + bytes"
  bep44_Verify :: "bytes \<Rightarrow> bytes option \<Rightarrow> int64 \<Rightarrow> bytes \<Rightarrow> bytes \<Rightarrow> bool"
  EncodeToString :: "bytes \<Rightarrow> string"
  DecodeString :: "string \<Rightarrow> error + bytes"
  json_Marshal :: "GetPkarrResponse \<Rightarrow> error + bytes"
  json_Unmarshal :: "bytes \<Rightarrow> error + GetPkarrResponse"
  MarshalBencode :: "bytes \<Rightarrow> error + bytes"
  bencode_Unmarshal :: "bytes \<Rightarrow> error + bytes"

text \<open>
  \<^verbatim>\<open>storage.Storage\<close>: the three methods the service calls, over the store's state.
  \<open>ReadRecord\<close> returns Go's pair (pointer, error); both may be nil.
\<close>

record 'db Storage =
  WriteRecord :: "Record \<Rightarrow> 'db \<Rightarrow> error option \<times> 'db"
  ReadRecord :: "string \<Rightarrow> 'db \<Rightarrow> Record option \<times> error option"
  ListRecords :: "'db \<Rightarrow> Record list \<times> error option"

datatype dht_call = PutCall bep44_Put | GetFullCall string

datatype level = DebugLevel | InfoLevel | WarnLevel | ErrorLevel

datatype log_arg = S string | I int

text \<open>A call of the logger: level, the error attached by \<^verbatim>\<open>WithError\<close>, format, arguments.\<close>

datatype log_entry = Log level "error option" string "log_arg list"

text \<open>
  \<^verbatim>\<open>PkarrService\<close> with everything it reaches: the store's state, the cache's
  entries and configured entry size, the environment's answers (\<open>cache_Set_err\<close>,
  \<open>dht_Put_err\<close>, \<open>dht_GetFull_res\<close>), the trace of DHT calls, the goroutines started
  and not yet run (each a pending \<^verbatim>\<open>dht.Put\<close>), and the log.
\<close>

record 'db PkarrService =
  db :: 'db
  cache :: "string \<rightharpoonup> bytes"
  cache_MaxEntrySize :: nat
  cache_Set_err :: "string \<Rightarrow> bytes \<Rightarrow> error option"
  dht_Put_err :: "bep44_Put \<Rightarrow> error option"
  dht_GetFull_res :: "string \<Rightarrow> error + FullGetResult"
  dht_calls :: "dht_call list"
  goroutines :: "bep44_Put list"
  logs :: "log_entry list"

section \<open>The collaborators\<close>

definition logf :: "level \<Rightarrow> error option \<Rightarrow> string \<Rightarrow> log_arg list \<Rightarrow> 'db PkarrService \<Rightarrow> 'db PkarrService" where
  "logf lv err fmt args s = s\<lparr>logs := logs s @ [Log lv err fmt args]\<rparr>"

text \<open>\<^verbatim>\<open>cache.Get\<close>: the entry, or bigcache's not-found error.\<close>

definition cache_Get :: "string \<Rightarrow> 'db PkarrService \<Rightarrow> error + bytes" where
  "cache_Get id' s = (case cache s id' of None \<Rightarrow> Inl (Error ''Entry not found'') | Some got \<Rightarrow> Inr got)"

text \<open>\<^verbatim>\<open>cache.Set\<close>: fails as the environment says, and stores the entry otherwise.\<close>

definition cache_Set :: "string \<Rightarrow> bytes \<Rightarrow> 'db PkarrService \<Rightarrow> error option \<times> 'db PkarrService" where
  "cache_Set id' entry s =
     (case cache_Set_err s id' entry of
        Some err \<Rightarrow> (Some err, s)
      | None \<Rightarrow> (None, s\<lparr>cache := (cache s)(id' \<mapsto> entry)\<rparr>))"

text \<open>\<^verbatim>\<open>dht.Put\<close> and \<^verbatim>\<open>dht.GetFull\<close>: the call is recorded, the environment answers.\<close>

definition dht_Put :: "bep44_Put \<Rightarrow> 'db PkarrService \<Rightarrow> error option \<times> 'db PkarrService" where
  "dht_Put p s = (dht_Put_err s p, s\<lparr>dht_calls := dht_calls s @ [PutCall p]\<rparr>)"

definition dht_GetFull :: "string \<Rightarrow> 'db PkarrService \<Rightarrow> (error + FullGetResult) \<times> 'db PkarrService" where
  "dht_GetFull id' s = (dht_GetFull_res s id', s\<lparr>dht_calls := dht_calls s @ [GetFullCall id']\<rparr>)"

text \<open>
  Go's conversion of a slice to an array of \<open>n\<close> elements: the first \<open>n\<close> elements;
  it panics when the slice is shorter.
\<close>

definition array_of_slice :: "nat \<Rightarrow> bytes \<Rightarrow> bytes outcome" where
  "array_of_slice n sl = (if length sl < n then Panics else Returns (take n sl))"

text \<open>The bytes of a slice: the nil slice reads as the empty one.\<close>

definition slice_bytes :: "bytes option \<Rightarrow> bytes" where
  "slice_bytes sl = (case sl of None \<Rightarrow> [] | Some bs \<Rightarrow> bs)"

section \<open>Construction\<close>

definition recordSizeLimit :: nat where
  "recordSizeLimit = 1000"

record Config =
  BootstrapPeers :: "string list"
  CacheTTLSeconds :: int
  CacheSizeLimitMB :: int
  RepublishCRON :: string

text \<open>
  What the environment decides when a service is built and run: whether
  \<^verbatim>\<open>dht.NewDHT\<close>, \<^verbatim>\<open>bigcache.New\<close> and \<^verbatim>\<open>scheduler.Schedule\<close> fail, and the
  answers of cache and DHT afterwards.
\<close>

record Environment =
  NewDHT_err :: "error option"
  bigcache_New_err :: "error option"
  Schedule_err :: "error option"
  env_cache_Set_err :: "string \<Rightarrow> bytes \<Rightarrow> error option"
  env_dht_Put_err :: "bep44_Put \<Rightarrow> error option"
  env_dht_GetFull_res :: "string \<Rightarrow> error + FullGetResult"

text \<open>
  \<^verbatim>\<open>NewPkarrService\<close>: \<open>recordSizeLimit\<close> becomes the \<^verbatim>\<open>MaxEntrySize\<close> of the cache's
  configuration; the service itself never reads it again.
\<close>

definition NewPkarrService :: "Config option \<Rightarrow> 'db \<Rightarrow> Environment \<Rightarrow> error + 'db PkarrService" where
  "NewPkarrService cfg d env =
     (case cfg of
        None \<Rightarrow> Inl (Error ''config is required'')
      | Some c \<Rightarrow>
         (case NewDHT_err env of
            Some err \<Rightarrow> Inl (Wrap ''failed to instantiate dht'' err)
          | None \<Rightarrow>
             (case bigcache_New_err env of
                Some err \<Rightarrow> Inl (Wrap ''failed to instantiate cache'' err)
              | None \<Rightarrow>
                 (case Schedule_err env of
                    Some err \<Rightarrow> Inl (Wrap ''failed to start republisher'' err)
                  | None \<Rightarrow>
                     Inr \<lparr>db = d, cache = Map.empty, cache_MaxEntrySize = recordSizeLimit,
                          cache_Set_err = env_cache_Set_err env, dht_Put_err = env_dht_Put_err env,
                          dht_GetFull_res = env_dht_GetFull_res env, dht_calls = [], goroutines = [],
                          logs = []\<rparr>))))"

section \<open>Validation\<close>

definition is_zero :: "bytes \<Rightarrow> bool" where
  "is_zero bs = list_all (\<lambda>b. b = 0) bs"

text \<open>
  \<^verbatim>\<open>util.IsValidStruct\<close> on a request: every field is tagged \<^verbatim>\<open>validate:"required"\<close>.
  The validator rejects the zero value of a field: a nil slice, an array that is all
  zero and the integer 0. The error lists the rejected fields.
\<close>

definition IsValidStruct :: "PublishPkarrRequest \<Rightarrow> error option" where
  "IsValidStruct p =
     (let missing =
        (if req_V p = None then [''V''] else []) @
        (if is_zero (req_K p) then [''K''] else []) @
        (if is_zero (req_Sig p) then [''Sig''] else []) @
        (if req_Seq p = 0 then [''Seq''] else [])
      in if missing = [] then None else Some (ValidationErrors missing))"

definition isValid :: "lib \<Rightarrow> PublishPkarrRequest \<Rightarrow> error option" where
  "isValid L p =
     (case IsValidStruct p of
        Some err \<Rightarrow> Some err
      | None \<Rightarrow>
         (case bencode_Marshal L (slice_bytes (req_V p)) of
            Inl err \<Rightarrow> Some err
          | Inr bv \<Rightarrow>
             if bep44_Verify L (req_K p) None (req_Seq p) bv (req_Sig p) then None
             else Some (Error ''signature is invalid'')))"

definition toRecord :: "lib \<Rightarrow> PublishPkarrRequest \<Rightarrow> Record" where
  "toRecord L p =
     \<lparr>rec_V = EncodeToString L (slice_bytes (req_V p)),
      rec_K = EncodeToString L (req_K p),
      rec_Sig = EncodeToString L (req_Sig p),
      rec_Seq = req_Seq p\<rparr>"

section \<open>Publish\<close>

definition response_of :: "PublishPkarrRequest \<Rightarrow> GetPkarrResponse" where
  "response_of request = \<lparr>resp_V = req_V request, resp_Seq = req_Seq request, resp_Sig = req_Sig request\<rparr>"

definition put_of :: "PublishPkarrRequest \<Rightarrow> bep44_Put" where
  "put_of request =
     \<lparr>put_V = req_V request, put_K = req_K request, put_Sig = req_Sig request, put_Seq = req_Seq request\<rparr>"

text \<open>
  \<^verbatim>\<open>PublishPkarr\<close>: validate, write to the store, set the cache entry, start the goroutine
  that puts to the DHT. The goroutine is appended to \<open>goroutines\<close>; it runs later.
\<close>

definition PublishPkarr ::
  "lib \<Rightarrow> 'db Storage \<Rightarrow> string \<Rightarrow> PublishPkarrRequest \<Rightarrow> 'db PkarrService \<Rightarrow> error option \<times> 'db PkarrService" where
  "PublishPkarr L St id' request s =
     (case isValid L request of
        Some err \<Rightarrow> (Some err, s)
      | None \<Rightarrow>
         (case WriteRecord St (toRecord L request) (db s) of
            (Some err, d) \<Rightarrow> (Some err, s\<lparr>db := d\<rparr>)
          | (None, d) \<Rightarrow>
             (case json_Marshal L (response_of request) of
                Inl err \<Rightarrow> (Some err, s\<lparr>db := d\<rparr>)
              | Inr recordBytes \<Rightarrow>
                 (case cache_Set id' recordBytes (s\<lparr>db := d\<rparr>) of
                    (Some err, s') \<Rightarrow> (Some err, s')
                  | (None, s') \<Rightarrow> (None, s'\<lparr>goroutines := goroutines s' @ [put_of request]\<rparr>)))))"

text \<open>The body of the goroutine: the put, and a log line when it fails.\<close>

definition background_put :: "bep44_Put \<Rightarrow> 'db PkarrService \<Rightarrow> 'db PkarrService" where
  "background_put p s =
     (case dht_Put p s of
        (Some err, s') \<Rightarrow> logf ErrorLevel (Some err) ''error from dht.Put'' [] s'
      | (None, s') \<Rightarrow> s')"

text \<open>The Go runtime runs one of the pending goroutines, the \<open>i\<close>-th.\<close>

definition run_goroutine :: "nat \<Rightarrow> 'db PkarrService \<Rightarrow> 'db PkarrService" where
  "run_goroutine i s =
     (if i < length (goroutines s)
      then background_put (goroutines s ! i)
             (s\<lparr>goroutines := take i (goroutines s) @ drop (Suc i) (goroutines s)\<rparr>)
      else s)"

section \<open>Resolve\<close>

definition fromPkarrRecord :: "lib \<Rightarrow> Record \<Rightarrow> (error + GetPkarrResponse) outcome" where
  "fromPkarrRecord L record =
     (case DecodeString L (rec_V record) of
        Inl err \<Rightarrow> Returns (Inl err)
      | Inr vBytes \<Rightarrow>
         (case DecodeString L (rec_Sig record) of
            Inl err \<Rightarrow> Returns (Inl err)
          | Inr sigBytes \<Rightarrow>
             (case array_of_slice 64 sigBytes of
                Panics \<Rightarrow> Panics
              | Returns sig \<Rightarrow>
                 Returns (Inr \<lparr>resp_V = Some vBytes, resp_Seq = rec_Seq record, resp_Sig = sig\<rparr>))))"

definition addRecordToCache ::
  "lib \<Rightarrow> string \<Rightarrow> GetPkarrResponse \<Rightarrow> 'db PkarrService \<Rightarrow> error option \<times> 'db PkarrService" where
  "addRecordToCache L id' resp s =
     (case json_Marshal L resp of
        Inl err \<Rightarrow> (Some err, s)
      | Inr recordBytes \<Rightarrow> cache_Set id' recordBytes s)"

text \<open>
  \<^verbatim>\<open>GetPkarr\<close> returns Go's pair (response pointer, error): cache first, then the DHT,
  then the store when the DHT lookup fails.
\<close>

definition GetPkarr ::
  "lib \<Rightarrow> 'db Storage \<Rightarrow> string \<Rightarrow> 'db PkarrService \<Rightarrow>
     (GetPkarrResponse option \<times> error option) outcome \<times> 'db PkarrService" where
  "GetPkarr L St id' s =
     (case cache_Get id' s of
        Inr got \<Rightarrow>
         (case json_Unmarshal L got of
            Inl err \<Rightarrow> (Returns (None, Some err), s)
          | Inr resp \<Rightarrow>
             (Returns (Some resp, None),
              logf DebugLevel None ''resolved pkarr record[%s] from cache'' [S id'] s))
      | Inl _ \<Rightarrow>
         (case dht_GetFull id' s of
            (Inl err, s1) \<Rightarrow>
             (let s2 = logf WarnLevel (Some err)
                ''failed to get pkarr record[%s] from dht, attempting to resolve from storage'' [S id'] s1
              in case ReadRecord St id' (db s2) of
                (_, Some err) \<Rightarrow>
                  (Returns (None, Some err),
                   logf ErrorLevel (Some err) ''failed to resolve pkarr record[%s] from storage'' [S id'] s2)
              | (None, None) \<Rightarrow>
                  (Returns (None, None),
                   logf ErrorLevel None ''failed to resolve pkarr record[%s] from storage'' [S id'] s2)
              | (Some record, None) \<Rightarrow>
                 (let s3 = logf DebugLevel None ''resolved pkarr record[%s] from storage'' [S id'] s2
                  in case fromPkarrRecord L record of
                    Panics \<Rightarrow> (Panics, s3)
                  | Returns (Inl err) \<Rightarrow> (Returns (None, Some err), s3)
                  | Returns (Inr resp) \<Rightarrow>
                     (case addRecordToCache L id' resp s3 of
                        (Some err, s4) \<Rightarrow>
                          (Returns (Some resp, None),
                           logf ErrorLevel (Some err) ''failed to set pkarr record[%s] in cache'' [S id'] s4)
                      | (None, s4) \<Rightarrow> (Returns (Some resp, None), s4))))
          | (Inr got, s1) \<Rightarrow>
             (case MarshalBencode L (got_V got) of
                Inl err \<Rightarrow> (Returns (None, Some err), s1)
              | Inr bBytes \<Rightarrow>
                 (case bencode_Unmarshal L bBytes of
                    Inl err \<Rightarrow> (Returns (None, Some err), s1)
                  | Inr payload \<Rightarrow>
                     (let resp = \<lparr>resp_V = Some payload, resp_Seq = got_Seq got, resp_Sig = got_Sig got\<rparr>
                      in case addRecordToCache L id' resp s1 of
                        (Some err, s2) \<Rightarrow>
                          (Returns (Some resp, None),
                           logf ErrorLevel (Some err) ''failed to set pkarr record[%s] in cache'' [S id'] s2)
                      | (None, s2) \<Rightarrow> (Returns (Some resp, None), s2))))))"

section \<open>Republish\<close>

definition recordToBEP44Put :: "lib \<Rightarrow> Record \<Rightarrow> (error + bep44_Put) outcome" where
  "recordToBEP44Put L record =
     (case DecodeString L (rec_V record) of
        Inl err \<Rightarrow> Returns (Inl err)
      | Inr vBytes \<Rightarrow>
         (case DecodeString L (rec_K record) of
            Inl err \<Rightarrow> Returns (Inl err)
          | Inr kBytes \<Rightarrow>
             (case DecodeString L (rec_Sig record) of
                Inl err \<Rightarrow> Returns (Inl err)
              | Inr sigBytes \<Rightarrow>
                 (case array_of_slice 32 kBytes of
                    Panics \<Rightarrow> Panics
                  | Returns k \<Rightarrow>
                     (case array_of_slice 64 sigBytes of
                        Panics \<Rightarrow> Panics
                      | Returns sig \<Rightarrow>
                         Returns (Inr \<lparr>put_V = Some vBytes, put_K = k, put_Sig = sig,
                                      put_Seq = rec_Seq record\<rparr>))))))"

text \<open>
  The loop of \<^verbatim>\<open>republish\<close> over the records, with the error count so far. A panic of
  the conversion ends the loop (and the goroutine of the tick).
\<close>

fun republish_loop ::
  "lib \<Rightarrow> Record list \<Rightarrow> nat \<Rightarrow> 'db PkarrService \<Rightarrow> nat outcome \<times> 'db PkarrService" where
  "republish_loop L [] errCnt s = (Returns errCnt, s)"
| "republish_loop L (record # rest) errCnt s =
     (case recordToBEP44Put L record of
        Panics \<Rightarrow> (Panics, s)
      | Returns (Inl err) \<Rightarrow>
          republish_loop L rest (errCnt + 1)
            (logf ErrorLevel (Some err) ''failed to convert record to bep44 put'' [] s)
      | Returns (Inr put) \<Rightarrow>
         (case dht_Put put s of
            (Some err, s') \<Rightarrow>
              republish_loop L rest (errCnt + 1)
                (logf ErrorLevel (Some err) ''failed to republish record'' [] s')
          | (None, s') \<Rightarrow> republish_loop L rest errCnt s'))"

definition republish :: "lib \<Rightarrow> 'db Storage \<Rightarrow> 'db PkarrService \<Rightarrow> unit outcome \<times> 'db PkarrService" where
  "republish L St s =
     (case ListRecords St (db s) of
        (_, Some err) \<Rightarrow>
          (Returns (), logf ErrorLevel (Some err) ''failed to list record(s) for republishing'' [] s)
      | (allRecords, None) \<Rightarrow>
          if length allRecords = 0 then (Returns (), logf InfoLevel None ''No records to republish'' [] s)
          else
            (case republish_loop L allRecords 0
                    (logf InfoLevel None ''Republishing [%d] record(s)'' [I (int (length allRecords))] s) of
               (Panics, s') \<Rightarrow> (Panics, s')
             | (Returns errCnt, s') \<Rightarrow>
                 (Returns (),
                  logf InfoLevel None
                    ''Republishing complete. Successfully republished %d out of %d record(s)''
                    [I (int (length allRecords) - int errCnt), I (int (length allRecords))] s')))"

section \<open>The Postgres store\<close>

text \<open>
  The generated queries over the table \<^verbatim>\<open>pkarr_records(key, value, sig, seq)\<close>. The
  table is the list of its rows in insertion order. The table's declaration is not part
  of the queries: whether the column \<^verbatim>\<open>key\<close> carries a uniqueness constraint is the
  field \<open>key_unique\<close>. \<open>query_err\<close> is the failure of the connection, if any: every
  call on the connection (\<^verbatim>\<open>Query\<close>, \<^verbatim>\<open>QueryRow\<close> with its \<^verbatim>\<open>Scan\<close>, \<^verbatim>\<open>Exec\<close>)
  reports it, and the rows of the table scan without error.
\<close>

record PkarrRecord =
  row_Key :: string
  row_Value :: string
  row_Sig :: string
  row_Seq :: int64

record WriteRecordParams =
  arg_Key :: string
  arg_Value :: string
  arg_Sig :: string
  arg_Seq :: int64

record Postgres =
  pkarr_records :: "PkarrRecord list"
  key_unique :: bool
  query_err :: "error option"

text \<open>\<^verbatim>\<open>SELECT key, value, sig, seq FROM pkarr_records\<close>\<close>

definition Queries_ListRecords :: "Postgres \<Rightarrow> PkarrRecord list \<times> error option" where
  "Queries_ListRecords q =
     (case query_err q of
        Some err \<Rightarrow> ([], Some err)
      | None \<Rightarrow> (pkarr_records q, None))"

text \<open>
  \<^verbatim>\<open>SELECT key, value, sig, seq FROM pkarr_records WHERE key = $1 LIMIT 1\<close>: the first
  row with that key; \<^verbatim>\<open>Scan\<close> reports an error when there is none, and the row
  returned is then the zero value.
\<close>

definition Queries_ReadRecord :: "string \<Rightarrow> Postgres \<Rightarrow> PkarrRecord \<times> error option" where
  "Queries_ReadRecord key q =
     (let i = \<lparr>row_Key = [], row_Value = [], row_Sig = [], row_Seq = 0\<rparr>
      in case query_err q of
        Some err \<Rightarrow> (i, Some err)
      | None \<Rightarrow>
         (case find (\<lambda>r. row_Key r = key) (pkarr_records q) of
            None \<Rightarrow> (i, Some (Error ''no rows in result set''))
          | Some r \<Rightarrow> (r, None)))"

definition row_of_params :: "WriteRecordParams \<Rightarrow> PkarrRecord" where
  "row_of_params arg =
     \<lparr>row_Key = arg_Key arg, row_Value = arg_Value arg, row_Sig = arg_Sig arg, row_Seq = arg_Seq arg\<rparr>"

text \<open>
  \<^verbatim>\<open>INSERT INTO pkarr_records(key, value, sig, seq) VALUES($1, $2, $3, $4)\<close>: a new row
  at the end of the table; the statement is rejected when \<^verbatim>\<open>key\<close> is unique and a row
  with that key exists.
\<close>

definition Queries_WriteRecord :: "WriteRecordParams \<Rightarrow> Postgres \<Rightarrow> error option \<times> Postgres" where
  "Queries_WriteRecord arg q =
     (case query_err q of
        Some err \<Rightarrow> (Some err, q)
      | None \<Rightarrow>
         if key_unique q \<and> arg_Key arg \<in> set (map row_Key (pkarr_records q))
         then (Some (Error ''duplicate key value violates unique constraint''), q)
         else (None, q\<lparr>pkarr_records := pkarr_records q @ [row_of_params arg]\<rparr>))"

definition record_of_row :: "PkarrRecord \<Rightarrow> Record" where
  "record_of_row r = \<lparr>rec_V = row_Value r, rec_K = row_Key r, rec_Sig = row_Sig r, rec_Seq = row_Seq r\<rparr>"

definition params_of_record :: "(Record \<Rightarrow> string) \<Rightarrow> Record \<Rightarrow> WriteRecordParams" where
  "params_of_record key_of record =
     \<lparr>arg_Key = key_of record, arg_Value = rec_V record, arg_Sig = rec_Sig record, arg_Seq = rec_Seq record\<rparr>"

text \<open>
  Modelled from the spec: the adapter that implements \<^verbatim>\<open>storage.Storage\<close> on the
  queries is missing from the sources. The spec calls it a thin facade: each method
  passes its argument to the query of the same name and the result back. The key of the
  row is \<open>key_of record\<close>, for any \<open>key_of\<close>.
\<close>

definition Postgres_Storage :: "(Record \<Rightarrow> string) \<Rightarrow> Postgres Storage" where
  "Postgres_Storage key_of =
     \<lparr>WriteRecord = (\<lambda>record q. Queries_WriteRecord (params_of_record key_of record) q),
      ReadRecord = (\<lambda>id' q.
        case Queries_ReadRecord id' q of
          (_, Some err) \<Rightarrow> (None, Some err)
        | (row, None) \<Rightarrow> (Some (record_of_row row), None)),
      ListRecords = (\<lambda>q.
        case Queries_ListRecords q of
          (_, Some err) \<Rightarrow> ([], Some err)
        | (rows, None) \<Rightarrow> (map record_of_row rows, None))\<rparr>"

section \<open>Instances for running the service\<close>

text \<open>
  A store in memory, a list of keys with their records: a write replaces the record
  under the key \<open>rec_K\<close>, and a read of a missing key returns neither a record nor an
  error.
\<close>

definition Memory_Storage :: "(string \<times> Record) list Storage" where
  "Memory_Storage =
     \<lparr>WriteRecord = (\<lambda>record m. (None, (rec_K record, record) # filter (\<lambda>kv. fst kv \<noteq> rec_K record) m)),
      ReadRecord = (\<lambda>id' m. (map_of m id', None)),
      ListRecords = (\<lambda>m. (map snd m, None))\<rparr>"

text \<open>
  Stand-ins for the libraries, small enough to evaluate. The text encoding maps a byte
  to the character of the same code and rejects the padding character; bencode prefixes
  the length; a signature is 64 times the byte that adds the lengths of key and encoded
  value to the sequence number; JSON is a flag for the nil slice, the 64 bits of \<open>Seq\<close>
  (a byte each), the 64 bytes of \<open>Sig\<close>, then \<open>V\<close>.
\<close>

definition test_sign :: "bytes \<Rightarrow> int64 \<Rightarrow> bytes \<Rightarrow> bytes" where
  "test_sign k seq bv = replicate 64 (of_nat (length k) + of_nat (length bv) + ucast seq)"

definition test_seq_bytes :: "int64 \<Rightarrow> bytes" where
  "test_seq_bytes w = map (\<lambda>i. of_bool (bit w i)) [0..<64]"

definition test_json_Marshal :: "GetPkarrResponse \<Rightarrow> error + bytes" where
  "test_json_Marshal r =
     Inr ((case resp_V r of None \<Rightarrow> [0] | Some _ \<Rightarrow> [1]) @ test_seq_bytes (resp_Seq r) @ resp_Sig r @
          slice_bytes (resp_V r))"

definition test_json_Unmarshal :: "bytes \<Rightarrow> error + GetPkarrResponse" where
  "test_json_Unmarshal bs =
     (if length bs < 129 then Inl (Error ''unexpected end of JSON input'')
      else Inr \<lparr>resp_V = (if hd bs = 0 then None else Some (drop 129 bs)),
                resp_Seq = horner_sum of_bool 2 (map (\<lambda>b. b \<noteq> 0) (take 64 (drop 1 bs))),
                resp_Sig = take 64 (drop 65 bs)\<rparr>)"

definition test_lib :: lib where
  "test_lib =
     \<lparr>bencode_Marshal = (\<lambda>v. Inr (of_nat (length v) # 58 # v)),
      bep44_Verify = (\<lambda>k salt seq bv sig. sig = test_sign k seq bv),
      EncodeToString = map (\<lambda>b. char_of (unat b)),
      DecodeString = (\<lambda>str.
        if CHR ''='' \<in> set str then Inl (Error ''illegal base64 data'')
        else Inr (map (\<lambda>c. of_nat (of_char c)) str)),
      json_Marshal = test_json_Marshal,
      json_Unmarshal = test_json_Unmarshal,
      MarshalBencode = Inr,
      bencode_Unmarshal = (\<lambda>b. if length b < 2 then Inl (Error ''bencode: syntax error'') else Inr (drop 2 b))\<rparr>"

text \<open>Requests signed with \<open>test_sign\<close>, and a service to run them on.\<close>

definition test_K :: bytes where
  "test_K = replicate 32 1"

definition signed_request :: "bytes \<Rightarrow> bytes \<Rightarrow> int64 \<Rightarrow> PublishPkarrRequest" where
  "signed_request k v seq =
     \<lparr>req_V = Some v, req_K = k,
      req_Sig = test_sign k seq (of_nat (length v) # 58 # v), req_Seq = seq\<rparr>"

definition test_Environment :: Environment where
  "test_Environment =
     \<lparr>NewDHT_err = None, bigcache_New_err = None, Schedule_err = None,
      env_cache_Set_err = (\<lambda>_ _. None), env_dht_Put_err = (\<lambda>_. None),
      env_dht_GetFull_res = (\<lambda>_. Inl (Error ''not found''))\<rparr>"

definition test_service :: "'db \<Rightarrow> 'db PkarrService" where
  "test_service d =
     \<lparr>db = d, cache = Map.empty, cache_MaxEntrySize = recordSizeLimit,
      cache_Set_err = (\<lambda>_ _. None), dht_Put_err = (\<lambda>_. None),
      dht_GetFull_res = (\<lambda>_. Inl (Error ''not found'')), dht_calls = [], goroutines = [],
      logs = []\<rparr>"

section \<open>Properties of the libraries and of a run\<close>

text \<open>JSON encodes the response and decodes the bytes to the same response.\<close>

definition json_roundtrip :: "lib \<Rightarrow> GetPkarrResponse \<Rightarrow> bool" where
  "json_roundtrip L r =
     (case json_Marshal L r of Inl _ \<Rightarrow> False | Inr bs \<Rightarrow> json_Unmarshal L bs = Inr r)"

text \<open>The signature of the request verifies against its key, sequence number and value.\<close>

definition signature_verifies :: "lib \<Rightarrow> PublishPkarrRequest \<Rightarrow> bool" where
  "signature_verifies L p =
     (case bencode_Marshal L (slice_bytes (req_V p)) of
        Inl _ \<Rightarrow> False
      | Inr bv \<Rightarrow> bep44_Verify L (req_K p) None (req_Seq p) bv (req_Sig p))"

text \<open>The text encoding decodes to the bytes it encoded.\<close>

definition text_roundtrip :: "lib \<Rightarrow> bytes \<Rightarrow> bool" where
  "text_roundtrip L bs = (DecodeString L (EncodeToString L bs) = Inr bs)"

text \<open>
  A request as Go's types have it (a key of 32 bytes, a signature of 64) with a value,
  all three of which the text encoding gives back.
\<close>

definition well_formed :: "lib \<Rightarrow> PublishPkarrRequest \<Rightarrow> bool" where
  "well_formed L q =
     (req_V q \<noteq> None \<and> length (req_K q) = 32 \<and> length (req_Sig q) = 64 \<and>
      text_roundtrip L (slice_bytes (req_V q)) \<and> text_roundtrip L (req_K q) \<and>
      text_roundtrip L (req_Sig q))"

text \<open>The conversion of a stored record to an announcement succeeds.\<close>

definition converts :: "lib \<Rightarrow> Record \<Rightarrow> bool" where
  "converts L record = (case recordToBEP44Put L record of Returns (Inr _) \<Rightarrow> True | _ \<Rightarrow> False)"

definition decoded :: "lib \<Rightarrow> string \<Rightarrow> bytes" where
  "decoded L str = (case DecodeString L str of Inl _ \<Rightarrow> [] | Inr b \<Rightarrow> b)"

text \<open>
  The announcement that carries the stored fields of a record as they are: value, key
  and signature decoded from their text, the sequence number copied.
\<close>

definition stored_put :: "lib \<Rightarrow> Record \<Rightarrow> bep44_Put" where
  "stored_put L record =
     \<lparr>put_V = Some (decoded L (rec_V record)), put_K = take 32 (decoded L (rec_K record)),
      put_Sig = take 64 (decoded L (rec_Sig record)), put_Seq = rec_Seq record\<rparr>"

text \<open>The DHT refuses the announcement of the record.\<close>

definition put_fails :: "lib \<Rightarrow> 'db PkarrService \<Rightarrow> Record \<Rightarrow> bool" where
  "put_fails L s record = (case dht_Put_err s (stored_put L record) of None \<Rightarrow> False | Some _ \<Rightarrow> True)"

text \<open>The log lines of the failed announcements of a tick, in the order of the records.\<close>

definition failure_lines :: "lib \<Rightarrow> 'db PkarrService \<Rightarrow> Record list \<Rightarrow> log_entry list" where
  "failure_lines L s records =
     concat (map (\<lambda>record.
       case dht_Put_err s (stored_put L record) of
         None \<Rightarrow> []
       | Some err \<Rightarrow> [Log ErrorLevel (Some err) ''failed to republish record'' []]) records)"

text \<open>What a caller or a later operation can see of the service, the log aside.\<close>

definition observable :: "'db PkarrService \<Rightarrow> 'db \<times> (string \<rightharpoonup> bytes) \<times> dht_call list \<times> bep44_Put list" where
  "observable s = (db s, cache s, dht_calls s, goroutines s)"

definition returned :: "'a outcome \<Rightarrow> bool" where
  "returned r = (case r of Returns _ \<Rightarrow> True | Panics \<Rightarrow> False)"

section \<open>Concrete runs\<close>

definition hello :: bytes where
  "hello = [104, 101, 108, 108, 111]"

definition world :: bytes where
  "world = [119, 111, 114, 108, 100]"

definition request_hello :: PublishPkarrRequest where
  "request_hello = signed_request test_K hello 1"

text \<open>The request with a signature that is not the signer's.\<close>

definition forged_request :: PublishPkarrRequest where
  "forged_request = request_hello\<lparr>req_Sig := replicate 64 9\<rparr>"

definition memory_service :: "(string \<times> Record) list PkarrService" where
  "memory_service = test_service []"




text \<open>A service whose cache refuses every entry.\<close>

definition full_cache_service :: "(string \<times> Record) list PkarrService" where
  "full_cache_service =
     memory_service\<lparr>cache_Set_err := (\<lambda>_ _. Some (Error ''entry is bigger than max shard size''))\<rparr>"

text \<open>
  A service with three stored records, of three keys and of sequence numbers 1, 2 and
  3, whose DHT refuses the announcement with sequence number 2.
\<close>

definition three_requests :: "PublishPkarrRequest list" where
  "three_requests =
     [signed_request (replicate 32 1) hello 1, signed_request (replicate 32 2) hello 2,
      signed_request (replicate 32 3) hello 3]"

definition three_records :: "Record list" where
  "three_records = map (toRecord test_lib) three_requests"

definition flaky_dht_service :: "(string \<times> Record) list PkarrService" where
  "flaky_dht_service =
     (test_service (map (\<lambda>record. (rec_K record, record)) three_records))
       \<lparr>dht_Put_err := (\<lambda>p. if put_Seq p = 2 then Some (Error ''timeout'') else None)\<rparr>"

text \<open>A service on the Postgres store with an empty table, the key unique or not.\<close>

definition postgres_service :: "bool \<Rightarrow> Postgres PkarrService" where
  "postgres_service unique = test_service \<lparr>pkarr_records = [], key_unique = unique, query_err = None\<rparr>"

text \<open>
  The service after \<open>request_hello\<close> is published under the id \<open>abc\<close>, and the result
  of publishing it again.
\<close>

definition hello_once :: "bool \<Rightarrow> Postgres PkarrService" where
  "hello_once unique =
     snd (PublishPkarr test_lib (Postgres_Storage rec_K) ''abc'' request_hello (postgres_service unique))"

definition hello_twice :: "bool \<Rightarrow> error option \<times> Postgres PkarrService" where
  "hello_twice unique =
     PublishPkarr test_lib (Postgres_Storage rec_K) ''abc'' request_hello (hello_once unique)"

definition hello_row :: PkarrRecord where
  "hello_row = row_of_params (params_of_record rec_K (toRecord test_lib request_hello))"

text \<open>The service after \<open>request_hello\<close>, of sequence number 1, is published under \<open>abc\<close>.\<close>

definition hello_published :: "(string \<times> Record) list PkarrService" where
  "hello_published = snd (PublishPkarr test_lib Memory_Storage ''abc'' request_hello memory_service)"

text \<open>The second request of the scenario: another value, sequence number 0, signed.\<close>

definition request_world_0 :: PublishPkarrRequest where
  "request_world_0 = signed_request test_K world 0"

definition request_hello_2 :: PublishPkarrRequest where
  "request_hello_2 = signed_request test_K hello 2"

definition request_world_1 :: PublishPkarrRequest where
  "request_world_1 = signed_request test_K world 1"

text \<open>The service after \<open>request_hello_2\<close>, of sequence number 2, is published under \<open>abc\<close>.\<close>

definition hello_2_published :: "(string \<times> Record) list PkarrService" where
  "hello_2_published = snd (PublishPkarr test_lib Memory_Storage ''abc'' request_hello_2 memory_service)"

text \<open>A signed request with a value of 1001 bytes.\<close>

definition big_request :: PublishPkarrRequest where
  "big_request = signed_request test_K (replicate 1001 7) 1"

text \<open>A service whose cache refuses the entries longer than \<open>recordSizeLimit\<close>.\<close>

definition limited_cache_service :: "(string \<times> Record) list PkarrService" where
  "limited_cache_service =
     memory_service\<lparr>cache_Set_err := (\<lambda>_ entry.
        if recordSizeLimit < length entry then Some (Error ''entry is bigger than max shard size'')
        else None)\<rparr>"

text \<open>The service after the publish of \<open>big_request\<close> that the limited cache refuses.\<close>

definition big_refused :: "(string \<times> Record) list PkarrService" where
  "big_refused = snd (PublishPkarr test_lib Memory_Storage ''abc'' big_request limited_cache_service)"

definition test_Config :: Config where
  "test_Config = \<lparr>BootstrapPeers = [], CacheTTLSeconds = 600, CacheSizeLimitMB = 500, RepublishCRON = ''0 */2 * * *''\<rparr>"

section \<open>Lemmas about the operations\<close>

lemma PublishPkarr_success:
  "PublishPkarr L St id' request s = (None, s') \<Longrightarrow>
     \<exists>d bs. isValid L request = None \<and> WriteRecord St (toRecord L request) (db s) = (None, d) \<and>
       json_Marshal L (response_of request) = Inr bs \<and> cache_Set_err s id' bs = None \<and>
       s' = s\<lparr>db := d, cache := (cache s)(id' \<mapsto> bs), goroutines := goroutines s @ [put_of request]\<rparr>"
  by (auto simp: PublishPkarr_def cache_Set_def split: option.splits prod.splits sum.splits)

lemma PublishPkarr_accepted:
  "isValid L request = None \<Longrightarrow> WriteRecord St (toRecord L request) (db s) = (None, d) \<Longrightarrow>
   json_Marshal L (response_of request) = Inr bs \<Longrightarrow> cache_Set_err s id' bs = None \<Longrightarrow>
     PublishPkarr L St id' request s =
       (None, s\<lparr>db := d, cache := (cache s)(id' \<mapsto> bs), goroutines := goroutines s @ [put_of request]\<rparr>)"
  by (simp add: PublishPkarr_def cache_Set_def)

lemma PublishPkarr_invalid: "isValid L request = Some err \<Longrightarrow> PublishPkarr L St id' request s = (Some err, s)"
  by (simp add: PublishPkarr_def)

lemma GetPkarr_cache_hit:
  "cache s id' = Some bs \<Longrightarrow> json_Unmarshal L bs = Inr resp \<Longrightarrow>
     GetPkarr L St id' s =
       (Returns (Some resp, None), logf DebugLevel None ''resolved pkarr record[%s] from cache'' [S id'] s)"
  by (simp add: GetPkarr_def cache_Get_def)

lemma isValid_unverified:
  "\<not> signature_verifies L request \<Longrightarrow> \<exists>err. isValid L request = Some err"
  by (auto simp: isValid_def signature_verifies_def split: option.splits sum.splits)

lemma isValid_verified: "isValid L request = None \<Longrightarrow> signature_verifies L request"
  by (auto simp: isValid_def signature_verifies_def split: option.splits sum.splits if_splits)

lemma isValid_Seq_zero:
  "req_V request \<noteq> None \<Longrightarrow> \<not> is_zero (req_K request) \<Longrightarrow> \<not> is_zero (req_Sig request) \<Longrightarrow>
   req_Seq request = 0 \<Longrightarrow> isValid L request = Some (ValidationErrors [''Seq''])"
  by (simp add: isValid_def IsValidStruct_def)

lemma isValid_Seq_nonzero: "isValid L request = None \<Longrightarrow> req_Seq request \<noteq> 0"
  by (auto simp: isValid_def IsValidStruct_def Let_def split: option.splits if_splits)

lemma json_roundtripD:
  "json_roundtrip L r \<Longrightarrow> \<exists>bs. json_Marshal L r = Inr bs \<and> json_Unmarshal L bs = Inr r"
  by (auto simp: json_roundtrip_def split: sum.splits)

lemma recordToBEP44Put_toRecord:
  "well_formed L q \<Longrightarrow> recordToBEP44Put L (toRecord L q) = Returns (Inr (put_of q))"
  by (auto simp: well_formed_def text_roundtrip_def recordToBEP44Put_def toRecord_def put_of_def
      array_of_slice_def slice_bytes_def)


lemma converts_stored_put:
  "converts L record \<Longrightarrow> recordToBEP44Put L record = Returns (Inr (stored_put L record))"
  by (auto simp: converts_def recordToBEP44Put_def stored_put_def decoded_def array_of_slice_def
      split: sum.splits outcome.splits if_splits)

lemma converts_toRecord: "well_formed L q \<Longrightarrow> converts L (toRecord L q)"
  by (simp add: converts_def recordToBEP44Put_toRecord)

lemma stored_put_toRecord: "well_formed L q \<Longrightarrow> stored_put L (toRecord L q) = put_of q"
  using converts_stored_put [OF converts_toRecord, of L q] recordToBEP44Put_toRecord [of L q]
  by simp

subsection \<open>The stand-in libraries\<close>

lemma test_seq_bytes_roundtrip:
  "horner_sum of_bool 2 (map (\<lambda>b. b \<noteq> 0) (test_seq_bytes w)) = w"
proof -
  have "map (\<lambda>b. b \<noteq> 0) (test_seq_bytes w) = map (bit w) [0..<64]"
    by (simp add: test_seq_bytes_def)
  then show ?thesis
    by (simp add: horner_sum_bit_eq_take_bit take_bit_word_eq_self)
qed

lemma length_test_seq_bytes: "length (test_seq_bytes w) = 64"
  by (simp add: test_seq_bytes_def)

lemma test_json_roundtrip:
  "length (resp_Sig r) = 64 \<Longrightarrow> json_roundtrip test_lib r"
  by (cases "resp_V r")
     (simp_all add: json_roundtrip_def test_lib_def test_json_Marshal_def test_json_Unmarshal_def
       slice_bytes_def test_seq_bytes_roundtrip length_test_seq_bytes)

lemma unat_byte_less: "unat (b :: byte) < 256"
  using unsigned_less [of b, where 'a = nat] by simp

lemma test_byte_char: "of_nat (of_char (char_of (unat b))) = (b :: byte)"
  using unat_byte_less [of b] by simp

lemma test_byte_padding: "char_of (unat (b :: byte)) = CHR ''='' \<longleftrightarrow> b = 61"
proof
  assume "char_of (unat b) = CHR ''=''"
  then have "(of_char (char_of (unat b)) :: nat) = of_char CHR ''=''" by simp
  then have "unat b = 61" using unat_byte_less [of b] by simp
  then have "of_nat (unat b) = (of_nat 61 :: byte)" by simp
  then show "b = 61" by simp
next
  assume "b = 61"
  moreover have "char_of (61 :: nat) = CHR ''=''" by code_simp
  ultimately show "char_of (unat b) = CHR ''=''" by simp
qed

lemma test_text_roundtrip: "61 \<notin> set bs \<Longrightarrow> text_roundtrip test_lib bs"
proof -
  assume a: "61 \<notin> set bs"
  have 1: "CHR ''='' \<notin> set (map (\<lambda>b. char_of (unat b)) bs)"
  proof
    assume "CHR ''='' \<in> set (map (\<lambda>b. char_of (unat b)) bs)"
    then obtain b where "b \<in> set bs" "char_of (unat b) = CHR ''=''" by auto
    with a show False by (simp add: test_byte_padding)
  qed
  have 2: "map (\<lambda>c. of_nat (of_char c)) (map (\<lambda>b. char_of (unat b)) bs) = bs"
    by (simp only: map_map comp_def test_byte_char) simp
  show ?thesis using 1 2 by (simp add: text_roundtrip_def test_lib_def)
qed

lemma is_zero_replicate: "0 < n \<Longrightarrow> is_zero (replicate n b) \<longleftrightarrow> b = 0"
  by (auto simp: is_zero_def list_all_iff)

lemma test_signed_valid:
  assumes "\<not> is_zero k" and "seq \<noteq> 0"
    and "of_nat (length k) + of_nat (length v + 2) + ucast seq \<noteq> (0 :: byte)"
  shows "isValid test_lib (signed_request k v seq) = None"
proof -
  have "\<not> is_zero (test_sign k seq (of_nat (length v) # 58 # v))"
    using assms(3) by (simp add: is_zero_replicate test_sign_def)
  then show ?thesis
    using assms(1,2)
    by (simp add: isValid_def IsValidStruct_def signed_request_def test_lib_def slice_bytes_def)
qed

lemma test_signed_well_formed:
  assumes "length k = 32" and "61 \<notin> set k" and "61 \<notin> set v"
    and "of_nat (length k) + of_nat (length v + 2) + ucast seq \<noteq> (61 :: byte)"
  shows "well_formed test_lib (signed_request k v seq)"
  using assms
  by (simp add: well_formed_def signed_request_def slice_bytes_def test_text_roundtrip test_sign_def)

lemma test_json_Marshal_eq:
  "json_Marshal test_lib r = Inr bs \<longleftrightarrow>
     bs = (case resp_V r of None \<Rightarrow> [0] | Some _ \<Rightarrow> [1]) @ test_seq_bytes (resp_Seq r) @ resp_Sig r @
          slice_bytes (resp_V r)"
  by (auto simp: test_lib_def test_json_Marshal_def)

lemma Memory_WriteRecord:
  "WriteRecord Memory_Storage record m = (None, (rec_K record, record) # filter (\<lambda>kv. fst kv \<noteq> rec_K record) m)"
  by (simp add: Memory_Storage_def)

lemma NewPkarrService_test:
  "NewPkarrService (Some test_Config) d test_Environment = Inr (test_service d)"
  by (simp add: NewPkarrService_def test_Environment_def test_service_def)

subsection \<open>The requests of the concrete runs\<close>

lemma hello_valid: "isValid test_lib request_hello = None"
  unfolding request_hello_def
  by (rule test_signed_valid) (simp_all add: test_K_def hello_def is_zero_replicate)


lemma hello_json: "json_roundtrip test_lib (response_of request_hello)"
  by (rule test_json_roundtrip)
     (simp add: response_of_def request_hello_def signed_request_def test_sign_def)

lemma hello_published_eq:
  "PublishPkarr test_lib Memory_Storage ''abc'' request_hello memory_service = (None, hello_published)"
proof -
  obtain bs where m: "json_Marshal test_lib (response_of request_hello) = Inr bs"
    by (simp add: test_json_Marshal_eq)
  have c: "cache_Set_err memory_service ''abc'' bs = None"
    by (simp add: memory_service_def test_service_def)
  from PublishPkarr_accepted [OF hello_valid Memory_WriteRecord m c] show ?thesis
    by (simp add: hello_published_def)
qed

section \<open>Publish and resolve\<close>

text \<open>
  C1. A request that passes field validation and whose signature verifies is published
  with success; the resolve of the same id that follows returns a response with the
  \<open>V\<close>, \<open>Seq\<close> and \<open>Sig\<close> of the request. The resolve reads the cache entry that the
  publish wrote, so JSON has to give the response back.
\<close>

theorem publish_resolve_roundtrip:
  assumes "isValid L request = None"
    and "PublishPkarr L St id' request s = (None, s')"
    and "json_roundtrip L (response_of request)"
  shows "\<exists>resp s''. GetPkarr L St id' s' = (Returns (Some resp, None), s'') \<and>
           resp_V resp = req_V request \<and> resp_Seq resp = req_Seq request \<and>
           resp_Sig resp = req_Sig request"
proof -
  from assms(2) obtain d bs where m: "json_Marshal L (response_of request) = Inr bs"
    and s': "s' = s\<lparr>db := d, cache := (cache s)(id' \<mapsto> bs), goroutines := goroutines s @ [put_of request]\<rparr>"
    using PublishPkarr_success by blast
  from assms(3) m have u: "json_Unmarshal L bs = Inr (response_of request)"
    by (simp add: json_roundtrip_def)
  have "cache s' id' = Some bs" by (simp add: s')
  from GetPkarr_cache_hit [OF this u] show ?thesis
    by (simp add: response_of_def)
qed

theorem publish_resolve_roundtrip_witness:
  "isValid test_lib request_hello = None \<and>
   PublishPkarr test_lib Memory_Storage ''abc'' request_hello memory_service = (None, hello_published) \<and>
   json_roundtrip test_lib (response_of request_hello) \<and>
   (\<exists>resp s''.
      GetPkarr test_lib Memory_Storage ''abc'' hello_published = (Returns (Some resp, None), s'') \<and>
      resp_V resp = Some hello \<and> resp_Seq resp = 1 \<and> resp_Sig resp = replicate 64 40)"
  using publish_resolve_roundtrip [OF hello_valid hello_published_eq hello_json]
    hello_valid hello_published_eq hello_json
  by (simp add: request_hello_def signed_request_def test_sign_def test_K_def hello_def)

text \<open>
  C2. A request whose signature does not verify is refused with an error, and the
  service is what it was: nothing is written to the store or the cache, no DHT call is
  made and no goroutine is started.
\<close>

theorem invalid_signature_writes_nothing:
  assumes "\<not> signature_verifies L request"
  shows "\<exists>err. PublishPkarr L St id' request s = (Some err, s)"
proof -
  from assms obtain err where "isValid L request = Some err"
    using isValid_unverified by blast
  then show ?thesis by (simp add: PublishPkarr_def)
qed

theorem invalid_signature_writes_nothing_witness:
  "\<not> signature_verifies test_lib forged_request \<and>
   PublishPkarr test_lib Memory_Storage ''abc'' forged_request memory_service =
     (Some (Error ''signature is invalid''), memory_service)"
proof -
  have h: "\<not> signature_verifies test_lib forged_request"
    by (simp add: signature_verifies_def forged_request_def request_hello_def signed_request_def
        test_lib_def test_sign_def slice_bytes_def test_K_def hello_def)
  have "IsValidStruct forged_request = None"
    by (simp add: IsValidStruct_def forged_request_def request_hello_def signed_request_def
        test_K_def is_zero_replicate)
  with h have e: "isValid test_lib forged_request = Some (Error ''signature is invalid'')"
    by (simp add: isValid_def signature_verifies_def test_lib_def)
  from invalid_signature_writes_nothing [OF h, of Memory_Storage "''abc''" memory_service]
    PublishPkarr_invalid [OF e, of Memory_Storage "''abc''" memory_service] h
  show ?thesis by simp
qed






text \<open>
  C6. The request is valid and the store takes the record, but the cache refuses the
  entry: the publish returns the cache's error, the store keeps the record it has
  written, and no goroutine is started, so no DHT announcement takes place.
\<close>

theorem cache_failure_fails_publish:
  assumes "isValid L request = None"
    and "WriteRecord St (toRecord L request) (db s) = (None, d)"
    and "json_Marshal L (response_of request) = Inr bs"
    and "cache_Set_err s id' bs = Some err"
  shows "\<exists>s'. PublishPkarr L St id' request s = (Some err, s') \<and> db s' = d \<and>
           cache s' = cache s \<and> goroutines s' = goroutines s \<and> dht_calls s' = dht_calls s"
  using assms by (simp add: PublishPkarr_def cache_Set_def)

theorem cache_failure_fails_publish_witness:
  "isValid test_lib request_hello = None \<and>
   (\<exists>s'. PublishPkarr test_lib Memory_Storage ''abc'' request_hello full_cache_service =
            (Some (Error ''entry is bigger than max shard size''), s') \<and>
          db s' = [(rec_K (toRecord test_lib request_hello), toRecord test_lib request_hello)] \<and>
          cache s' ''abc'' = None \<and> goroutines s' = [] \<and> dht_calls s' = [])"
proof -
  have w: "WriteRecord Memory_Storage (toRecord test_lib request_hello) (db full_cache_service) =
      (None, [(rec_K (toRecord test_lib request_hello), toRecord test_lib request_hello)])"
    by (simp add: Memory_Storage_def full_cache_service_def memory_service_def test_service_def)
  obtain bs where m: "json_Marshal test_lib (response_of request_hello) = Inr bs"
    by (simp add: test_json_Marshal_eq)
  have c: "cache_Set_err full_cache_service ''abc'' bs =
      Some (Error ''entry is bigger than max shard size'')"
    by (simp add: full_cache_service_def)
  from cache_failure_fails_publish [OF hello_valid w m c] hello_valid show ?thesis
    by (auto simp: full_cache_service_def memory_service_def test_service_def)
qed

text \<open>
  C10. The cache has no entry, the DHT lookup fails, and the store's \<open>ReadRecord\<close>
  returns no record and no error: the resolve returns no response and no error.
\<close>

theorem nil_record_nil_error:
  assumes "cache s id' = None"
    and "dht_GetFull_res s id' = Inl e"
    and "ReadRecord St id' (db s) = (None, None)"
  shows "\<exists>s'. GetPkarr L St id' s = (Returns (None, None), s')"
  using assms by (simp add: GetPkarr_def cache_Get_def dht_GetFull_def logf_def)

theorem nil_record_nil_error_witness:
  "cache memory_service ''abc'' = None \<and>
   dht_GetFull_res memory_service ''abc'' = Inl (Error ''not found'') \<and>
   ReadRecord Memory_Storage ''abc'' (db memory_service) = (None, None) \<and>
   fst (GetPkarr test_lib Memory_Storage ''abc'' memory_service) = Returns (None, None)"
proof -
  have h: "cache memory_service ''abc'' = None"
    "dht_GetFull_res memory_service ''abc'' = Inl (Error ''not found'')"
    "ReadRecord Memory_Storage ''abc'' (db memory_service) = (None, None)"
    by (simp_all add: memory_service_def test_service_def Memory_Storage_def)
  from nil_record_nil_error [OF h, of test_lib] h show ?thesis by auto
qed

section \<open>Republish\<close>

lemma put_fails_cong: "dht_Put_err s' = dht_Put_err s \<Longrightarrow> put_fails L s' = put_fails L s"
  by (simp add: put_fails_def fun_eq_iff)

lemma failure_lines_cong: "dht_Put_err s' = dht_Put_err s \<Longrightarrow> failure_lines L s' = failure_lines L s"
  by (simp add: failure_lines_def fun_eq_iff)

lemma failure_lines_Cons:
  "failure_lines L s (r # rs) =
     (case dht_Put_err s (stored_put L r) of
        None \<Rightarrow> []
      | Some err \<Rightarrow> [Log ErrorLevel (Some err) ''failed to republish record'' []]) @ failure_lines L s rs"
  by (simp add: failure_lines_def)

lemma republish_loop_converting:
  "list_all (converts L) rs \<Longrightarrow>
     \<exists>s'. republish_loop L rs n s = (Returns (n + length (filter (put_fails L s) rs)), s') \<and>
       dht_calls s' = dht_calls s @ map (\<lambda>r. PutCall (stored_put L r)) rs \<and>
       logs s' = logs s @ failure_lines L s rs \<and>
       dht_Put_err s' = dht_Put_err s \<and> db s' = db s \<and> cache s' = cache s \<and>
       goroutines s' = goroutines s"
proof (induction rs arbitrary: n s)
  case Nil
  then show ?case by (simp add: failure_lines_def)
next
  case (Cons r rs)
  then have conv: "recordToBEP44Put L r = Returns (Inr (stored_put L r))" and rest: "list_all (converts L) rs"
    by (simp_all add: converts_stored_put)
  define s0 where "s0 = s\<lparr>dht_calls := dht_calls s @ [PutCall (stored_put L r)]\<rparr>"
  show ?case
  proof (cases "dht_Put_err s (stored_put L r)")
    case None
    have o: "dht_Put_err s0 = dht_Put_err s" by (simp add: s0_def)
    have step: "republish_loop L (r # rs) n s = republish_loop L rs n s0"
      using None conv by (simp add: dht_Put_def s0_def)
    have cnt: "length (filter (put_fails L s) (r # rs)) = length (filter (put_fails L s) rs)"
      and lines: "failure_lines L s (r # rs) = failure_lines L s rs"
      using None by (simp_all add: put_fails_def failure_lines_Cons)
    from Cons.IH [OF rest, of n s0] obtain s' where
      "republish_loop L rs n s0 = (Returns (n + length (filter (put_fails L s0) rs)), s')"
      "dht_calls s' = dht_calls s0 @ map (\<lambda>r. PutCall (stored_put L r)) rs"
      "logs s' = logs s0 @ failure_lines L s0 rs"
      "dht_Put_err s' = dht_Put_err s0" "db s' = db s0" "cache s' = cache s0"
      "goroutines s' = goroutines s0" by blast
    then have "republish_loop L (r # rs) n s = (Returns (n + length (filter (put_fails L s) (r # rs))), s')"
      "dht_calls s' = dht_calls s @ map (\<lambda>r. PutCall (stored_put L r)) (r # rs)"
      "logs s' = logs s @ failure_lines L s (r # rs)"
      "dht_Put_err s' = dht_Put_err s" "db s' = db s" "cache s' = cache s"
      "goroutines s' = goroutines s"
      unfolding step cnt lines put_fails_cong [OF o] failure_lines_cong [OF o]
      by (simp_all add: s0_def)
    then show ?thesis by blast
  next
    case (Some err)
    define s1 where "s1 = logf ErrorLevel (Some err) ''failed to republish record'' [] s0"
    have o: "dht_Put_err s1 = dht_Put_err s" by (simp add: s1_def s0_def logf_def)
    have step: "republish_loop L (r # rs) n s = republish_loop L rs (n + 1) s1"
      using Some conv by (simp add: dht_Put_def s0_def s1_def)
    have cnt: "length (filter (put_fails L s) (r # rs)) = 1 + length (filter (put_fails L s) rs)"
      and lines: "failure_lines L s (r # rs) =
        Log ErrorLevel (Some err) ''failed to republish record'' [] # failure_lines L s rs"
      using Some by (simp_all add: put_fails_def failure_lines_Cons)
    from Cons.IH [OF rest, of "n + 1" s1] obtain s' where
      "republish_loop L rs (n + 1) s1 = (Returns (n + 1 + length (filter (put_fails L s1) rs)), s')"
      "dht_calls s' = dht_calls s1 @ map (\<lambda>r. PutCall (stored_put L r)) rs"
      "logs s' = logs s1 @ failure_lines L s1 rs"
      "dht_Put_err s' = dht_Put_err s1" "db s' = db s1" "cache s' = cache s1"
      "goroutines s' = goroutines s1" by blast
    then have "republish_loop L (r # rs) n s = (Returns (n + length (filter (put_fails L s) (r # rs))), s')"
      "dht_calls s' = dht_calls s @ map (\<lambda>r. PutCall (stored_put L r)) (r # rs)"
      "logs s' = logs s @ failure_lines L s (r # rs)"
      "dht_Put_err s' = dht_Put_err s" "db s' = db s" "cache s' = cache s"
      "goroutines s' = goroutines s"
      unfolding step cnt lines put_fails_cong [OF o] failure_lines_cong [OF o]
      by (simp_all add: s1_def s0_def logf_def)
    then show ?thesis by blast
  qed
qed



section \<open>DHT failures\<close>

lemma observable_logf [simp]: "observable (logf lv err fmt args s) = observable s"
  by (simp add: observable_def logf_def)

lemma republish_loop_observable:
  "observable s1 = observable s2 \<Longrightarrow>
     returned (fst (republish_loop L rs n s1)) = returned (fst (republish_loop L rs m s2)) \<and>
     observable (snd (republish_loop L rs n s1)) = observable (snd (republish_loop L rs m s2))"
proof (induction rs arbitrary: n m s1 s2)
  case Nil
  then show ?case by (simp add: returned_def)
next
  case (Cons r rs)
  have step: "observable (a\<lparr>dht_calls := dht_calls a @ [c]\<rparr>) = observable (b\<lparr>dht_calls := dht_calls b @ [c]\<rparr>)"
    if "observable a = observable b" for a b :: "'a PkarrService" and c
    using that by (simp add: observable_def)
  show ?case
  proof (cases "recordToBEP44Put L r")
    case Panics
    then show ?thesis using Cons.prems by (simp add: returned_def)
  next
    case (Returns x)
    show ?thesis
    proof (cases x)
      case (Inl err)
      with Returns show ?thesis
        using Cons.IH [of "logf ErrorLevel (Some err) ''failed to convert record to bep44 put'' [] s1"
            "logf ErrorLevel (Some err) ''failed to convert record to bep44 put'' [] s2"] Cons.prems
        by simp
    next
      case (Inr put)
      with Returns show ?thesis
        using Cons.prems step [OF Cons.prems, of "PutCall put"]
        by (auto simp: dht_Put_def split: option.splits intro!: Cons.IH [THEN conjunct1] Cons.IH [THEN conjunct2])
    qed
  qed
qed


lemma unit_outcome_eq: "returned a = returned b \<Longrightarrow> (a :: unit outcome) = b"
  by (cases a; cases b) (simp_all add: returned_def)

lemma observable_put_oracle [simp]: "observable (s\<lparr>dht_Put_err := f\<rparr>) = observable s"
  by (simp add: observable_def)

lemma republish_observable:
  assumes "observable s1 = observable s2"
  shows "fst (republish L St s1) = fst (republish L St s2) \<and>
         observable (snd (republish L St s1)) = observable (snd (republish L St s2))"
proof -
  from assms have d: "db s1 = db s2" by (simp add: observable_def)
  obtain rs e where l: "ListRecords St (db s2) = (rs, e)" by (cases "ListRecords St (db s2)")
  show ?thesis
  proof (cases "e = None \<and> rs \<noteq> []")
    case False
    then show ?thesis using assms d l by (auto simp: republish_def split: option.splits)
  next
    case True
    define a where "a = republish_loop L rs 0
      (logf InfoLevel None ''Republishing [%d] record(s)'' [I (int (length rs))] s1)"
    define b where "b = republish_loop L rs 0
      (logf InfoLevel None ''Republishing [%d] record(s)'' [I (int (length rs))] s2)"
    have rel: "returned (fst a) = returned (fst b) \<and> observable (snd a) = observable (snd b)"
      unfolding a_def b_def by (rule republish_loop_observable) (simp add: assms)
    have ra: "republish L St s1 = (case a of (Panics, s') \<Rightarrow> (Panics, s')
        | (Returns errCnt, s') \<Rightarrow> (Returns (), logf InfoLevel None
            ''Republishing complete. Successfully republished %d out of %d record(s)''
            [I (int (length rs) - int errCnt), I (int (length rs))] s'))"
      using True d l by (simp add: republish_def a_def)
    have rb: "republish L St s2 = (case b of (Panics, s') \<Rightarrow> (Panics, s')
        | (Returns errCnt, s') \<Rightarrow> (Returns (), logf InfoLevel None
            ''Republishing complete. Successfully republished %d out of %d record(s)''
            [I (int (length rs) - int errCnt), I (int (length rs))] s'))"
      using True l by (simp add: republish_def b_def)
    show ?thesis
      unfolding ra rb using rel
      by (cases a; cases b) (auto simp: returned_def split: outcome.splits)
  qed
qed

text \<open>
  C7. What a publish returns, and what it leaves in store, cache, DHT trace and pending
  goroutines, is the same whatever the DHT answers to puts. The goroutine of a publish
  and a tick of republish return no error value at all; what a run of a goroutine and
  a tick leave, the log aside, is the same whether the puts fail or not (and a tick
  ends the same way). A failed put only adds a line to the log.
\<close>

theorem dht_put_failure_not_returned:
  "fst (PublishPkarr L St id' request (s\<lparr>dht_Put_err := f\<rparr>)) = fst (PublishPkarr L St id' request s) \<and>
   observable (snd (PublishPkarr L St id' request (s\<lparr>dht_Put_err := f\<rparr>))) =
     observable (snd (PublishPkarr L St id' request s)) \<and>
   observable (run_goroutine i (s\<lparr>dht_Put_err := f\<rparr>)) = observable (run_goroutine i s) \<and>
   fst (republish L St (s\<lparr>dht_Put_err := f\<rparr>)) = fst (republish L St s) \<and>
   observable (snd (republish L St (s\<lparr>dht_Put_err := f\<rparr>))) = observable (snd (republish L St s))"
proof -
  have pub: "fst (PublishPkarr L St id' request (s\<lparr>dht_Put_err := f\<rparr>)) =
      fst (PublishPkarr L St id' request s)"
    "observable (snd (PublishPkarr L St id' request (s\<lparr>dht_Put_err := f\<rparr>))) =
      observable (snd (PublishPkarr L St id' request s))"
    by (simp_all add: PublishPkarr_def cache_Set_def observable_def
        split: option.splits prod.splits sum.splits)
  have bg: "observable (run_goroutine i (s\<lparr>dht_Put_err := f\<rparr>)) = observable (run_goroutine i s)"
    by (simp add: run_goroutine_def background_put_def dht_Put_def observable_def logf_def
        split: option.splits)
  have rep: "fst (republish L St (s\<lparr>dht_Put_err := f\<rparr>)) = fst (republish L St s) \<and>
      observable (snd (republish L St (s\<lparr>dht_Put_err := f\<rparr>))) = observable (snd (republish L St s))"
    by (rule republish_observable) simp
  from pub bg rep show ?thesis by simp
qed

theorem dht_put_failure_not_returned_witness:
  "fst (PublishPkarr test_lib Memory_Storage ''abc'' request_hello
          (memory_service\<lparr>dht_Put_err := (\<lambda>_. Some (Error ''timeout''))\<rparr>)) = None \<and>
   fst (republish test_lib Memory_Storage (flaky_dht_service\<lparr>dht_Put_err := (\<lambda>_. None)\<rparr>)) = Returns () \<and>
   dht_calls (snd (republish test_lib Memory_Storage (flaky_dht_service\<lparr>dht_Put_err := (\<lambda>_. None)\<rparr>))) =
     dht_calls (snd (republish test_lib Memory_Storage flaky_dht_service))"
proof -
  note t = dht_put_failure_not_returned
    [where L = test_lib and St = Memory_Storage and id' = "''abc''" and request = request_hello]
  have a: "fst (PublishPkarr test_lib Memory_Storage ''abc'' request_hello
          (memory_service\<lparr>dht_Put_err := (\<lambda>_. Some (Error ''timeout''))\<rparr>)) = None"
    using t [where s = memory_service and f = "\<lambda>_. Some (Error ''timeout'')"] hello_published_eq by simp
  have wf: "list_all (well_formed test_lib) three_requests"
    by (simp add: three_requests_def test_signed_well_formed hello_def)
  then have conv: "list_all (converts test_lib) three_records"
    by (simp add: three_records_def three_requests_def converts_toRecord)
  have listed: "ListRecords Memory_Storage (db flaky_dht_service) = (three_records, None)"
    by (simp add: Memory_Storage_def flaky_dht_service_def test_service_def comp_def)
  have ne: "three_records \<noteq> []" by (simp add: three_records_def three_requests_def)
  from republish_loop_converting [OF conv] obtain n s' where
    "republish_loop test_lib three_records 0
       (logf InfoLevel None ''Republishing [%d] record(s)'' [I (int (length three_records))]
          flaky_dht_service) = (Returns n, s')"
    by blast
  with listed ne have r: "fst (republish test_lib Memory_Storage flaky_dht_service) = Returns ()"
    by (simp add: republish_def)
  from t [where s = flaky_dht_service and f = "\<lambda>_. None"] r
  show ?thesis using a by (simp add: observable_def)
qed

section \<open>Publishing again\<close>

lemma Postgres_WriteRecord_iff:
  "WriteRecord (Postgres_Storage key_of) record q = (None, d) \<longleftrightarrow>
     query_err q = None \<and> \<not> (key_unique q \<and> key_of record \<in> set (map row_Key (pkarr_records q))) \<and>
     d = q\<lparr>pkarr_records := pkarr_records q @ [row_of_params (params_of_record key_of record)]\<rparr>"
  by (auto simp: Postgres_Storage_def Queries_WriteRecord_def params_of_record_def
      split: option.splits)

lemma Postgres_WriteRecord_duplicate:
  "query_err q = None \<Longrightarrow> key_unique q \<Longrightarrow> key_of r \<in> set (map row_Key (pkarr_records q)) \<Longrightarrow>
     WriteRecord (Postgres_Storage key_of) r q =
       (Some (Error ''duplicate key value violates unique constraint''), q)"
  by (simp add: Postgres_Storage_def Queries_WriteRecord_def params_of_record_def)

lemma Postgres_publish_first:
  assumes "PublishPkarr L (Postgres_Storage key_of) id' request s = (None, s1)"
  shows "pkarr_records (db s1) =
           pkarr_records (db s) @ [row_of_params (params_of_record key_of (toRecord L request))] \<and>
         query_err (db s1) = None \<and> key_unique (db s1) = key_unique (db s) \<and>
         isValid L request = None \<and>
         (\<exists>bs. json_Marshal L (response_of request) = Inr bs \<and> cache s1 id' = Some bs \<and>
            cache_Set_err s1 id' bs = None)"
proof -
  from PublishPkarr_success [OF assms] obtain d bs where
    valid: "isValid L request = None"
    and w: "WriteRecord (Postgres_Storage key_of) (toRecord L request) (db s) = (None, d)"
    and m: "json_Marshal L (response_of request) = Inr bs"
    and c: "cache_Set_err s id' bs = None"
    and s1: "s1 = s\<lparr>db := d, cache := (cache s)(id' \<mapsto> bs), goroutines := goroutines s @ [put_of request]\<rparr>"
    by blast
  from w have "query_err (db s) = None"
    and "d = (db s)\<lparr>pkarr_records := pkarr_records (db s) @
      [row_of_params (params_of_record key_of (toRecord L request))]\<rparr>"
    by (simp_all add: Postgres_WriteRecord_iff)
  with valid m c show ?thesis by (simp add: s1)
qed

lemma Postgres_publish_duplicate:
  assumes "isValid L request = None" and "query_err (db s) = None" and "key_unique (db s)"
    and "key_of (toRecord L request) \<in> set (map row_Key (pkarr_records (db s)))"
  shows "PublishPkarr L (Postgres_Storage key_of) id' request s =
           (Some (Error ''duplicate key value violates unique constraint''), s)"
  using assms(1)
    Postgres_WriteRecord_duplicate
      [where q = "db s" and key_of = key_of and r = "toRecord L request", OF assms(2-4)]
  by (simp add: PublishPkarr_def)

lemma Postgres_publish_append:
  assumes "isValid L request = None" and "query_err (db s) = None" and "\<not> key_unique (db s)"
    and "json_Marshal L (response_of request) = Inr bs" and "cache_Set_err s id' bs = None"
  shows "\<exists>s'. PublishPkarr L (Postgres_Storage key_of) id' request s = (None, s') \<and>
           pkarr_records (db s') =
             pkarr_records (db s) @ [row_of_params (params_of_record key_of (toRecord L request))] \<and>
           cache s' = (cache s)(id' \<mapsto> bs)"
proof -
  have w: "WriteRecord (Postgres_Storage key_of) (toRecord L request) (db s) =
      (None, (db s)\<lparr>pkarr_records := pkarr_records (db s) @
         [row_of_params (params_of_record key_of (toRecord L request))]\<rparr>)"
    using assms(2,3) by (simp add: Postgres_WriteRecord_iff)
  from PublishPkarr_accepted [OF assms(1) w assms(4,5)] show ?thesis by simp
qed

lemma hello_published_postgres:
  "PublishPkarr test_lib (Postgres_Storage rec_K) ''abc'' request_hello (postgres_service unique) =
     (None, hello_once unique)"
proof -
  obtain bs where m: "json_Marshal test_lib (response_of request_hello) = Inr bs"
    by (simp add: test_json_Marshal_eq)
  have c: "cache_Set_err (postgres_service unique) ''abc'' bs = None"
    by (simp add: postgres_service_def test_service_def)
  have w: "WriteRecord (Postgres_Storage rec_K) (toRecord test_lib request_hello) (db (postgres_service unique)) =
      (None, (db (postgres_service unique))\<lparr>pkarr_records := pkarr_records (db (postgres_service unique)) @
         [row_of_params (params_of_record rec_K (toRecord test_lib request_hello))]\<rparr>)"
    by (simp add: Postgres_WriteRecord_iff postgres_service_def test_service_def)
  from PublishPkarr_accepted [OF hello_valid w m c] show ?thesis by (simp add: hello_once_def)
qed

text \<open>
  C4, as the code has it. A request is published with success on the Postgres store and
  published again. Both times the resolve that follows returns the response of the
  request. The store's \<open>WriteRecord\<close> is an \<^verbatim>\<open>INSERT\<close>: the first publish adds a row;
  where the key is not unique the second publish succeeds, adds a second row equal to
  the first and leaves the cache as it was; where the key is unique the second publish
  returns the store's error and changes nothing.
\<close>

theorem publish_twice_postgres:
  assumes "PublishPkarr L (Postgres_Storage key_of) id' request s = (None, s1)"
    and "json_roundtrip L (response_of request)"
  shows "pkarr_records (db s1) =
           pkarr_records (db s) @ [row_of_params (params_of_record key_of (toRecord L request))] \<and>
         (\<exists>s'. GetPkarr L (Postgres_Storage key_of) id' s1 =
                  (Returns (Some (response_of request), None), s')) \<and>
         (if key_unique (db s)
          then PublishPkarr L (Postgres_Storage key_of) id' request s1 =
                 (Some (Error ''duplicate key value violates unique constraint''), s1)
          else (\<exists>s2 s'. PublishPkarr L (Postgres_Storage key_of) id' request s1 = (None, s2) \<and>
                  pkarr_records (db s2) =
                    pkarr_records (db s) @
                      [row_of_params (params_of_record key_of (toRecord L request)),
                       row_of_params (params_of_record key_of (toRecord L request))] \<and>
                  cache s2 = cache s1 \<and>
                  GetPkarr L (Postgres_Storage key_of) id' s2 =
                    (Returns (Some (response_of request), None), s')))"
proof -
  let ?St = "Postgres_Storage key_of"
  let ?row = "row_of_params (params_of_record key_of (toRecord L request))"
  from Postgres_publish_first [OF assms(1)] obtain bs where
    rows1: "pkarr_records (db s1) = pkarr_records (db s) @ [?row]"
    and q: "query_err (db s1) = None" and k: "key_unique (db s1) = key_unique (db s)"
    and valid: "isValid L request = None"
    and m: "json_Marshal L (response_of request) = Inr bs"
    and c1: "cache s1 id' = Some bs" and set1: "cache_Set_err s1 id' bs = None"
    by blast
  from assms(2) m have u: "json_Unmarshal L bs = Inr (response_of request)"
    by (simp add: json_roundtrip_def)
  have resolve1: "\<exists>s'. GetPkarr L ?St id' s1 = (Returns (Some (response_of request), None), s')"
    using GetPkarr_cache_hit [OF c1 u] by blast
  show ?thesis
  proof (cases "key_unique (db s)")
    case True
    have "key_of (toRecord L request) \<in> set (map row_Key (pkarr_records (db s1)))"
      by (simp add: rows1 row_of_params_def params_of_record_def)
    from Postgres_publish_duplicate [where key_of = key_of and id' = id', OF valid q _ this]
      True k rows1 resolve1
    show ?thesis by simp
  next
    case False
    with k have "\<not> key_unique (db s1)" by simp
    from Postgres_publish_append [OF valid q this m set1, of key_of] obtain s2 where
      second: "PublishPkarr L ?St id' request s1 = (None, s2)"
      and rows2: "pkarr_records (db s2) = pkarr_records (db s1) @ [?row]"
      and c2: "cache s2 = (cache s1)(id' \<mapsto> bs)"
      by blast
    from c1 c2 have same: "cache s2 = cache s1" by auto
    then have "cache s2 id' = Some bs" using c1 by simp
    from GetPkarr_cache_hit [OF this u] second rows2 same False rows1 resolve1
    show ?thesis by simp
  qed
qed

theorem publish_twice_postgres_witness:
  "PublishPkarr test_lib (Postgres_Storage rec_K) ''abc'' request_hello (postgres_service False) =
     (None, hello_once False) \<and>
   json_roundtrip test_lib (response_of request_hello) \<and>
   (\<exists>s2 s'. hello_twice False = (None, s2) \<and>
      pkarr_records (db s2) = [hello_row, hello_row] \<and>
      GetPkarr test_lib (Postgres_Storage rec_K) ''abc'' s2 =
        (Returns (Some (response_of request_hello), None), s'))"
proof -
  have u: "\<not> key_unique (db (postgres_service False))"
    and e: "pkarr_records (db (postgres_service False)) = []"
    by (simp_all add: postgres_service_def test_service_def)
  from publish_twice_postgres [OF hello_published_postgres hello_json, of False] u e
    hello_published_postgres [of False] hello_json
  show ?thesis
    by (auto simp: hello_twice_def hello_row_def)
qed

text \<open>
  The claim as the spec states it fails on the Postgres store: with a key that is not
  unique the table holds two rows after the second publish, and with a unique key the
  second publish fails.
\<close>

theorem publish_twice_postgres_counterexample:
  "fst (hello_twice False) = None \<and>
   pkarr_records (db (snd (hello_twice False))) = [hello_row, hello_row] \<and>
   fst (hello_twice True) = Some (Error ''duplicate key value violates unique constraint'')"
proof -
  have e: "pkarr_records (db (postgres_service unique)) = []"
    and k: "key_unique (db (postgres_service unique)) = unique" for unique
    by (simp_all add: postgres_service_def test_service_def)
  from Postgres_publish_first [OF hello_published_postgres] obtain bs where
    rows1: "pkarr_records (db (hello_once unique)) = [hello_row]"
    and q: "query_err (db (hello_once unique)) = None"
    and k1: "key_unique (db (hello_once unique)) = unique"
    and m: "json_Marshal test_lib (response_of request_hello) = Inr bs"
    and set1: "cache_Set_err (hello_once unique) ''abc'' bs = None" for unique
    by (auto simp: e k hello_row_def test_json_Marshal_eq)
  from k1 [of False] have "\<not> key_unique (db (hello_once False))" by simp
  from Postgres_publish_append [OF hello_valid q this m set1, of rec_K]
  have a: "fst (hello_twice False) = None \<and>
      pkarr_records (db (snd (hello_twice False))) = [hello_row, hello_row]"
    by (auto simp: hello_twice_def rows1 hello_row_def)
  have "rec_K (toRecord test_lib request_hello) \<in> set (map row_Key (pkarr_records (db (hello_once True))))"
    by (simp add: rows1 hello_row_def row_of_params_def params_of_record_def)
  from Postgres_publish_duplicate [where key_of = rec_K and id' = "''abc''", OF hello_valid q _ this]
    k1 [of True]
  have b: "fst (hello_twice True) = Some (Error ''duplicate key value violates unique constraint'')"
    by (simp add: hello_twice_def)
  from a b show ?thesis by simp
qed

section \<open>Sequence numbers\<close>

lemma memory_publish:
  assumes "isValid test_lib q = None" and "cache_Set_err s = (\<lambda>_ _. None)"
  shows "\<exists>s'. PublishPkarr test_lib Memory_Storage id' q s = (None, s') \<and>
           db s' = (rec_K (toRecord test_lib q), toRecord test_lib q) #
                   filter (\<lambda>kv. fst kv \<noteq> rec_K (toRecord test_lib q)) (db s) \<and>
           cache s' id' \<noteq> None \<and> cache_Set_err s' = cache_Set_err s \<and>
           dht_calls s' = dht_calls s \<and> logs s' = logs s"
proof -
  obtain bs where m: "json_Marshal test_lib (response_of q) = Inr bs"
    by (simp add: test_json_Marshal_eq)
  have c: "cache_Set_err s id' bs = None" by (simp add: assms(2))
  from PublishPkarr_accepted [OF assms(1) Memory_WriteRecord m c] show ?thesis by simp
qed

lemma hello_2_valid: "isValid test_lib request_hello_2 = None"
  unfolding request_hello_2_def
  by (rule test_signed_valid) (simp_all add: test_K_def hello_def is_zero_replicate)

lemma world_1_valid: "isValid test_lib request_world_1 = None"
  unfolding request_world_1_def
  by (rule test_signed_valid) (simp_all add: test_K_def world_def is_zero_replicate)

lemma world_1_json: "json_roundtrip test_lib (response_of request_world_1)"
  by (rule test_json_roundtrip)
     (simp add: response_of_def request_world_1_def signed_request_def test_sign_def)

lemma hello_2_published_eq:
  "PublishPkarr test_lib Memory_Storage ''abc'' request_hello_2 memory_service = (None, hello_2_published) \<and>
   db hello_2_published = [(rec_K (toRecord test_lib request_hello_2), toRecord test_lib request_hello_2)]"
  using memory_publish [OF hello_2_valid, of memory_service "''abc''"]
  by (auto simp: hello_2_published_def memory_service_def test_service_def)

text \<open>
  C5, as the code has it. After a publish, a request with a lower sequence number that
  passes field validation (so its sequence number is not 0) and whose signature
  verifies is published with success when the store and the cache take it: the store
  is what its \<open>WriteRecord\<close> makes of the new record, the cache entry of the id is the
  new response, and the next resolve returns it. No sequence number is compared.
\<close>

theorem lower_seq_publish:
  assumes first: "PublishPkarr L St id' request1 s = (None, s1)"
    and lower: "sint (req_Seq request2) < sint (req_Seq request1)"
    and valid: "isValid L request2 = None"
    and written: "WriteRecord St (toRecord L request2) (db s1) = (None, d2)"
    and json: "json_Marshal L (response_of request2) = Inr bs2"
      "json_Unmarshal L bs2 = Inr (response_of request2)"
    and accepts: "cache_Set_err s id' bs2 = None"
  shows "req_Seq request2 \<noteq> 0 \<and>
         (\<exists>s2 s3. PublishPkarr L St id' request2 s1 = (None, s2) \<and> db s2 = d2 \<and>
            cache s2 id' = Some bs2 \<and>
            GetPkarr L St id' s2 = (Returns (Some (response_of request2), None), s3))"
proof -
  from PublishPkarr_success [OF first] obtain d bs where
    s1: "s1 = s\<lparr>db := d, cache := (cache s)(id' \<mapsto> bs), goroutines := goroutines s @ [put_of request1]\<rparr>"
    by blast
  have set1: "cache_Set_err s1 id' bs2 = None" using accepts by (simp add: s1)
  define s2 where "s2 = s1\<lparr>db := d2, cache := (cache s1)(id' \<mapsto> bs2),
    goroutines := goroutines s1 @ [put_of request2]\<rparr>"
  from PublishPkarr_accepted [OF valid written json(1) set1]
  have second: "PublishPkarr L St id' request2 s1 = (None, s2)" by (simp add: s2_def)
  have c2: "cache s2 id' = Some bs2" and d: "db s2 = d2" by (simp_all add: s2_def)
  from GetPkarr_cache_hit [OF c2 json(2)] second c2 d isValid_Seq_nonzero [OF valid]
  show ?thesis by simp
qed

theorem lower_seq_publish_witness:
  "PublishPkarr test_lib Memory_Storage ''abc'' request_hello_2 memory_service = (None, hello_2_published) \<and>
   db hello_2_published = [(rec_K (toRecord test_lib request_hello_2), toRecord test_lib request_hello_2)] \<and>
   sint (req_Seq request_world_1) < sint (req_Seq request_hello_2) \<and>
   isValid test_lib request_world_1 = None \<and>
   (\<exists>s2 s3.
      PublishPkarr test_lib Memory_Storage ''abc'' request_world_1 hello_2_published = (None, s2) \<and>
      db s2 = [(rec_K (toRecord test_lib request_world_1), toRecord test_lib request_world_1)] \<and>
      GetPkarr test_lib Memory_Storage ''abc'' s2 =
        (Returns (Some (response_of request_world_1), None), s3))"
proof -
  note first = hello_2_published_eq [THEN conjunct1]
  have lower: "sint (req_Seq request_world_1) < sint (req_Seq request_hello_2)"
    by (simp add: request_world_1_def request_hello_2_def signed_request_def)
  have same_key: "rec_K (toRecord test_lib request_hello_2) = rec_K (toRecord test_lib request_world_1)"
    by (simp add: toRecord_def request_world_1_def request_hello_2_def signed_request_def)
  have written: "WriteRecord Memory_Storage (toRecord test_lib request_world_1) (db hello_2_published) =
      (None, [(rec_K (toRecord test_lib request_world_1), toRecord test_lib request_world_1)])"
    by (simp add: Memory_WriteRecord hello_2_published_eq [THEN conjunct2] same_key)
  from json_roundtripD [OF world_1_json] obtain bs
    where m: "json_Marshal test_lib (response_of request_world_1) = Inr bs"
      and u: "json_Unmarshal test_lib bs = Inr (response_of request_world_1)" by blast
  have accepts: "cache_Set_err memory_service ''abc'' bs = None"
    by (simp add: memory_service_def test_service_def)
  from lower_seq_publish [OF first lower world_1_valid written m u accepts]
    hello_2_published_eq lower world_1_valid
  show ?thesis by auto
qed

text \<open>
  The scenario of the claim: after the publish with sequence number 1, the request with
  the other value, sequence number 0 and a signature that verifies is refused by field
  validation, and the service is unchanged.
\<close>

theorem lower_seq_publish_counterexample:
  "PublishPkarr test_lib Memory_Storage ''abc'' request_hello memory_service = (None, hello_published) \<and>
   signature_verifies test_lib request_world_0 \<and>
   sint (req_Seq request_world_0) < sint (req_Seq request_hello) \<and>
   PublishPkarr test_lib Memory_Storage ''abc'' request_world_0 hello_published =
     (Some (ValidationErrors [''Seq'']), hello_published)"
proof -
  have v: "signature_verifies test_lib request_world_0"
    by (simp add: signature_verifies_def request_world_0_def signed_request_def test_lib_def
        slice_bytes_def)
  have lower: "sint (req_Seq request_world_0) < sint (req_Seq request_hello)"
    by (simp add: request_world_0_def request_hello_def signed_request_def)
  have "isValid test_lib request_world_0 = Some (ValidationErrors [''Seq''])"
    by (rule isValid_Seq_zero)
       (simp_all add: request_world_0_def signed_request_def test_K_def world_def test_sign_def
         is_zero_replicate)
  from PublishPkarr_invalid [OF this] hello_published_eq v lower show ?thesis by simp
qed

section \<open>The size of the value\<close>

lemma big_valid: "isValid test_lib big_request = None"
  unfolding big_request_def
  by (rule test_signed_valid) (simp_all add: test_K_def is_zero_replicate)

lemma big_well_formed: "well_formed test_lib big_request"
  unfolding big_request_def
  by (rule test_signed_well_formed) (simp_all add: test_K_def)

lemma big_length: "recordSizeLimit < length (slice_bytes (req_V big_request))"
  by (simp add: recordSizeLimit_def big_request_def signed_request_def slice_bytes_def)

text \<open>
  C9, as the code has it. The publish sets no bound on the value: \<open>recordSizeLimit\<close>
  only configures the cache. A valid request with a value longer than
  \<open>recordSizeLimit\<close> is written to the store, and the publish returns what the cache
  answers to the entry: success when the cache takes it.
\<close>

theorem oversized_value_not_refused:
  assumes "isValid L request = None"
    and "recordSizeLimit < length (slice_bytes (req_V request))"
    and "WriteRecord St (toRecord L request) (db s) = (None, d)"
    and "json_Marshal L (response_of request) = Inr bs"
  shows "\<exists>s'. PublishPkarr L St id' request s = (cache_Set_err s id' bs, s') \<and> db s' = d"
  using assms(1,3,4)
  by (cases "cache_Set_err s id' bs") (simp_all add: PublishPkarr_def cache_Set_def)

theorem oversized_value_not_refused_witness:
  "isValid test_lib big_request = None \<and>
   recordSizeLimit < length (slice_bytes (req_V big_request)) \<and>
   (\<exists>s'. PublishPkarr test_lib Memory_Storage ''abc'' big_request memory_service = (None, s') \<and>
      db s' = [(rec_K (toRecord test_lib big_request), toRecord test_lib big_request)])"
proof -
  have w: "WriteRecord Memory_Storage (toRecord test_lib big_request) (db memory_service) =
      (None, [(rec_K (toRecord test_lib big_request), toRecord test_lib big_request)])"
    by (simp add: Memory_WriteRecord memory_service_def test_service_def)
  obtain bs where m: "json_Marshal test_lib (response_of big_request) = Inr bs"
    by (simp add: test_json_Marshal_eq)
  have c: "cache_Set_err memory_service ''abc'' bs = None"
    by (simp add: memory_service_def test_service_def)
  from oversized_value_not_refused [OF big_valid big_length w m, of "''abc''"] c big_valid big_length
  show ?thesis by simp
qed

text \<open>
  A signed request with a value of 1001 bytes is published with success when the cache
  takes the entry. When the cache refuses the entries longer than \<open>recordSizeLimit\<close>
  the publish returns the cache's error, but the store holds the record by then, and
  the next tick of republish puts it to the DHT.
\<close>

theorem oversized_value_counterexample:
  "length (slice_bytes (req_V big_request)) = 1001 \<and>
   fst (PublishPkarr test_lib Memory_Storage ''abc'' big_request memory_service) = None \<and>
   PublishPkarr test_lib Memory_Storage ''abc'' big_request limited_cache_service =
     (Some (Error ''entry is bigger than max shard size''), big_refused) \<and>
   db big_refused = [(rec_K (toRecord test_lib big_request), toRecord test_lib big_request)] \<and>
   dht_calls (snd (republish test_lib Memory_Storage big_refused)) = [PutCall (put_of big_request)]"
proof -
  have len: "length (slice_bytes (req_V big_request)) = 1001"
    by (simp add: big_request_def signed_request_def slice_bytes_def)
  obtain bs where m: "json_Marshal test_lib (response_of big_request) = Inr bs"
    and long: "recordSizeLimit < length bs"
    by (simp add: test_json_Marshal_eq recordSizeLimit_def response_of_def big_request_def
        signed_request_def slice_bytes_def)
  have w: "WriteRecord Memory_Storage (toRecord test_lib big_request) (db s) =
      (None, [(rec_K (toRecord test_lib big_request), toRecord test_lib big_request)])"
    if "db s = []" for s :: "(string \<times> Record) list PkarrService"
    using that by (simp add: Memory_WriteRecord)
  have e: "db memory_service = []" "db limited_cache_service = []"
    "dht_calls limited_cache_service = []"
    by (simp_all add: limited_cache_service_def memory_service_def test_service_def)
  have "cache_Set_err memory_service ''abc'' bs = None"
    by (simp add: memory_service_def test_service_def)
  from PublishPkarr_accepted [OF big_valid w [OF e(1)] m this]
  have taken: "fst (PublishPkarr test_lib Memory_Storage ''abc'' big_request memory_service) = None"
    by simp
  have c: "cache_Set_err limited_cache_service ''abc'' bs =
      Some (Error ''entry is bigger than max shard size'')"
    using long by (simp add: limited_cache_service_def)
  have refused: "PublishPkarr test_lib Memory_Storage ''abc'' big_request limited_cache_service =
      (Some (Error ''entry is bigger than max shard size''), big_refused)"
    and stored: "db big_refused = [(rec_K (toRecord test_lib big_request), toRecord test_lib big_request)]"
    and calls: "dht_calls big_refused = []"
    using big_valid w [OF e(2)] m c e(3)
    by (simp_all add: big_refused_def PublishPkarr_def cache_Set_def)
  have conv: "list_all (converts test_lib) [toRecord test_lib big_request]"
    by (simp add: converts_toRecord big_well_formed)
  from republish_loop_converting [OF conv] obtain n s' where
    loop: "republish_loop test_lib [toRecord test_lib big_request] 0
       (logf InfoLevel None ''Republishing [%d] record(s)'' [I 1] big_refused) = (Returns n, s')"
    and tr: "dht_calls s' =
      dht_calls (logf InfoLevel None ''Republishing [%d] record(s)'' [I 1] big_refused) @
      map (\<lambda>r. PutCall (stored_put test_lib r)) [toRecord test_lib big_request]"
    by blast
  have "dht_calls (snd (republish test_lib Memory_Storage big_refused)) = [PutCall (put_of big_request)]"
    using loop tr calls stored
    by (simp add: republish_def Memory_Storage_def logf_def stored_put_toRecord big_well_formed)
  with len taken refused stored show ?thesis by simp
qed

end
